theory Spec2Isabelle
  imports Main "HOL-Library.AList"
begin

section \<open>Python values and dictionaries\<close>

text \<open>
  The configuration handed to \<open>KubernetesStack\<close> is what a YAML loader returns, and the
  artifacts are what \<open>json.dump\<close> receives: \<open>None\<close>, booleans, integers, strings, lists and
  dictionaries with string keys. A dictionary keeps its insertion order, so it is an
  association list. Floating point values are left out.
\<close>

datatype pyval =
    PNone
  | PBool bool
  | PInt int
  | PStr string
  | PList "pyval list"
  | PDict "(string \<times> pyval) list"

type_synonym dict = "(string \<times> pyval) list"

text \<open>Truth value of an object, as \<open>if value\<close> and \<open>... and value\<close> test it.\<close>

fun truthy :: "pyval \<Rightarrow> bool" where
  "truthy PNone = False"
| "truthy (PBool b) = b"
| "truthy (PInt i) = (i \<noteq> 0)"
| "truthy (PStr s) = (s \<noteq> [])"
| "truthy (PList xs) = (xs \<noteq> [])"
| "truthy (PDict kvs) = (kvs \<noteq> [])"

text \<open>
  \<open>d.update(e)\<close>: every pair of \<open>e\<close>, in order, is stored in \<open>d\<close>; a key that \<open>d\<close> already
  has keeps its place and takes the new value, a new key goes to the end
  (\<open>AList.update\<close> is \<open>d[k] = v\<close>).
\<close>

definition dict_update :: "dict \<Rightarrow> dict \<Rightarrow> dict" where
  "dict_update d e = fold (\<lambda>(k, v). AList.update k v) e d"

text \<open>The exceptions the code can raise, with their messages.\<close>

datatype error =
    KeyError string
  | TypeError string
  | IndexError string

section \<open>Configuration objects\<close>

text \<open>
  Modelled from the spec: the enumeration \<open>Provider\<close> of \<open>platinfra_cli.enums.provider\<close>,
  which is not among the sources. The spec lists it as "enumerated: AWS, GCP, ..."; the
  code names \<open>Provider.AWS\<close> and \<open>Provider.GCP\<close>. It is taken as a plain enumeration: a
  member is equal to itself only, and to no string.
\<close>

datatype Provider = AWS | GCP | OtherProvider string

text \<open>
  The attribute \<open>self.provider\<close> is annotated \<open>Provider\<close>, which Python does not enforce:
  it holds a member of the enumeration or whatever else the caller passed, here a string.
  \<open>==\<close> between two such values is equality of the datatype.
\<close>

datatype provider_attr = EnumMember Provider | RawStr string

text \<open>
  One element of \<open>application_config["inputs"]\<close>, with the keys \<open>"name"\<close>, \<open>"default"\<close>,
  \<open>"user_facing"\<close> and \<open>"value"\<close>. The code reads \<open>"value"\<close> only when the default is the
  string \<open>"None"\<close>: \<open>in_value\<close> is \<open>None\<close> when the key is absent. The fields that the code
  formats into strings (names, and \<open>"value"\<close>, a reference expression) are strings; the
  flags are booleans.
\<close>

record input_spec =
  in_name :: string
  in_default :: pyval
  in_user_facing :: bool
  in_value :: "string option"

text \<open>One element of \<open>application_config["outputs"]\<close>.\<close>

record output_spec =
  out_name :: string
  out_export :: bool

text \<open>What \<open>_read_config_file\<close> returns when it is not \<open>None\<close>; the keys \<open>"inputs"\<close> and
  \<open>"outputs"\<close> may each be absent.\<close>

record application_config =
  inputs :: "input_spec list option"
  outputs :: "output_spec list option"

text \<open>The mapping under the stack type of one stack entry; the keys \<open>"name"\<close> and
  \<open>"params"\<close> may each be absent.\<close>

record stack_body =
  entry_name :: "string option"
  entry_params :: "dict option"

text \<open>One element of \<open>self.stacks\<close>: a dictionary whose first key is the stack type.\<close>

type_synonym module = "(string \<times> stack_body) list"

text \<open>
  What the class takes from outside the file: the constants \<open>TF_PATH\<close> and
  \<open>CREATE_VPC_DB_SUBNET\<close> of \<open>platinfra_cli.utils.constants\<close>, and the methods
  \<open>_read_config_file\<close> and \<open>_is_env_match\<close> of \<open>AbstractStack\<close>. They are parameters of
  the model. \<open>CREATE_VPC_DB_SUBNET\<close> is a collection of parameter keys (the spec's fixed
  set of subnet-triggering keys), and \<open>key in CREATE_VPC_DB_SUBNET\<close> is membership.
\<close>

record deps =
  TF_PATH :: string
  CREATE_VPC_DB_SUBNET :: "string list"
  read_config_file :: "string \<Rightarrow> string \<Rightarrow> application_config option"
  is_env_match :: "string \<Rightarrow> bool"

text \<open>The fields of \<open>self\<close> that the constructor sets and nothing changes.\<close>

record stack_self =
  state_file_name :: string
  region :: string
  account_id :: string
  provider :: provider_attr
  stacks :: "module list"

text \<open>
  What a run changes: the list \<open>self.output["output"]\<close>, and the files written, each with
  its path and the object dumped into it, in the order of the writes.
\<close>

record run_state =
  self_output :: "pyval list"
  files :: "(string \<times> pyval) list"

definition init_state :: run_state where
  "init_state = \<lparr>self_output = [], files = []\<rparr>"

section \<open>\<open>process_stack_modules\<close>\<close>

text \<open>The value stored for an input that is not user facing (lines 82 to 86):
  its default, or, when the default is the string \<open>"None"\<close>, \<open>"${ %s }"\<close> filled with the
  field \<open>value\<close>; a missing field raises \<open>KeyError\<close>.\<close>

definition input_value :: "input_spec \<Rightarrow> error + pyval" where
  "input_value i =
     (if in_default i \<noteq> PStr ''None'' then Inr (in_default i)
      else case in_value i of
             None \<Rightarrow> Inl (KeyError ''value'')
           | Some v \<Rightarrow> Inr (PStr (''${ '' @ v @ '' }'')))"

text \<open>The loop of lines 77 to 88 over the inputs, carrying the dictionary \<open>inputs\<close> and
  the module block, which takes \<open>inputs\<close> at the end of every iteration.\<close>

fun inputs_loop :: "input_spec list \<Rightarrow> dict \<Rightarrow> dict \<Rightarrow> error + dict" where
  "inputs_loop [] inps block = Inr block"
| "inputs_loop (i # rest) inps block =
     (if \<not> in_user_facing i then
        (case input_value i of
           Inl e \<Rightarrow> Inl e
         | Inr input_val \<Rightarrow>
             (let inps' = AList.update (in_name i) input_val inps
              in inputs_loop rest inps' (dict_update block inps')))
      else inputs_loop rest inps (dict_update block inps))"

text \<open>The entry appended to \<open>self.output["output"]\<close> for an exported output (lines 93 to 97).\<close>

definition output_ref :: "string \<Rightarrow> output_spec \<Rightarrow> pyval" where
  "output_ref nm out =
     PDict [(out_name out,
             PDict [(''value'', PStr (''${ '' @ (''module.'' @ nm @ ''.'' @ out_name out) @ '' }''))])]"

fun outputs_loop :: "string \<Rightarrow> output_spec list \<Rightarrow> pyval list \<Rightarrow> pyval list" where
  "outputs_loop nm [] acc = acc"
| "outputs_loop nm (out # rest) acc =
     (if out_export out then outputs_loop nm rest (acc @ [output_ref nm out])
      else outputs_loop nm rest acc)"

text \<open>The inner loop of lines 106 to 119 for one parameter: every input of that name
  either accepts the parameter or raises.\<close>

fun match_inputs ::
  "string list \<Rightarrow> string \<Rightarrow> pyval \<Rightarrow> input_spec list \<Rightarrow> dict \<times> bool \<Rightarrow> error + dict \<times> bool" where
  "match_inputs C key v [] acc = Inr acc"
| "match_inputs C key v (i # rest) (ps, flag) =
     (if key = in_name i then
        (if in_user_facing i then
           match_inputs C key v rest
             (AList.update key v ps, (if key \<in> set C \<and> truthy v then True else flag))
         else Inl (KeyError (key @ '' is not a user facing parameter'')))
      else match_inputs C key v rest (ps, flag))"

text \<open>The message of the \<open>TypeError\<close> that subscripting \<open>None\<close> raises:
  \<open>'NoneType' object is not subscriptable\<close>.\<close>

definition not_subscriptable :: string where
  "not_subscriptable = [CHR 0x27] @ ''NoneType'' @ [CHR 0x27] @ '' object is not subscriptable''"

text \<open>The outer loop of lines 105 to 119 over the items of \<open>params\<close>;
  \<open>application_config["inputs"]\<close> is read in every iteration, and fails on \<open>None\<close> and on a
  configuration without that key.\<close>

fun params_loop ::
  "string list \<Rightarrow> application_config option \<Rightarrow> dict \<Rightarrow> dict \<times> bool \<Rightarrow> error + dict \<times> bool" where
  "params_loop C cfg [] acc = Inr acc"
| "params_loop C cfg ((key, v) # rest) acc =
     (case cfg of
        None \<Rightarrow> Inl (TypeError not_subscriptable)
      | Some c \<Rightarrow>
          (case inputs c of
             None \<Rightarrow> Inl (KeyError ''inputs'')
           | Some ins \<Rightarrow>
               (case match_inputs C key v ins acc of
                  Inl e \<Rightarrow> Inl e
                | Inr acc' \<Rightarrow> params_loop C cfg rest acc')))"

definition stack_file :: "deps \<Rightarrow> string \<Rightarrow> string" where
  "stack_file D stack_type = ''./'' @ TF_PATH D @ ''/stack_'' @ stack_type @ ''.tf.json''"

definition module_source :: "string \<Rightarrow> string \<Rightarrow> pyval" where
  "module_source stack_type nm =
     PStr (''../modules/applications/'' @ stack_type @ ''/'' @ nm @ ''/tf_module'')"

text \<open>Lines 74 to 88: the module block after the inputs of the configuration, when there
  is a configuration and it has inputs.\<close>

definition read_inputs :: "application_config option \<Rightarrow> dict \<Rightarrow> error + dict" where
  "read_inputs application_config block =
     (case application_config of
        None \<Rightarrow> Inr block
      | Some c \<Rightarrow>
          (case inputs c of
             None \<Rightarrow> Inr block
           | Some ins \<Rightarrow> inputs_loop ins [] block))"

text \<open>Lines 74 and 90 to 97: the exported outputs go to \<open>self.output["output"]\<close>.\<close>

definition read_outputs :: "application_config option \<Rightarrow> string \<Rightarrow> run_state \<Rightarrow> run_state" where
  "read_outputs application_config nm st =
     (case application_config of
        None \<Rightarrow> st
      | Some c \<Rightarrow>
          (case outputs c of
             None \<Rightarrow> st
           | Some outs \<Rightarrow> st\<lparr>self_output := outputs_loop nm outs (self_output st)\<rparr>))"

text \<open>Lines 102 to 120: the module block after the parameters of the stack entry, and the
  flag.\<close>

definition read_params ::
  "string list \<Rightarrow> application_config option \<Rightarrow> stack_body \<Rightarrow> dict \<Rightarrow> bool \<Rightarrow> error + dict \<times> bool" where
  "read_params C application_config body block flag =
     (case entry_params body of
        None \<Rightarrow> Inr (block, flag)
      | Some items \<Rightarrow>
          (case params_loop C application_config items ([], flag) of
             Inl e \<Rightarrow> Inl e
           | Inr (params, flag') \<Rightarrow> Inr (dict_update block params, flag')))"

text \<open>
  The body of the loop of lines 50 to 125 for one stack entry. It takes the flag
  \<open>create_vpc_database_subnets\<close> and the state, and returns the new flag or the exception
  raised, with the state as it is then.
\<close>

definition process_module ::
  "deps \<Rightarrow> module \<Rightarrow> bool \<Rightarrow> run_state \<Rightarrow> (error + bool) \<times> run_state" where
  "process_module D m flag st =
     (case m of
        [] \<Rightarrow> (Inl (IndexError ''list index out of range''), st)
      | (stack_type, body) # _ \<Rightarrow>
          (case entry_name body of
             None \<Rightarrow> (Inl (KeyError (''No application assigned to the stack: '' @ stack_type)), st)
           | Some nm \<Rightarrow>
               (let application_config = read_config_file D stack_type nm
                in case read_inputs application_config [(''source'', module_source stack_type nm)] of
                     Inl e \<Rightarrow> (Inl e, st)
                   | Inr block1 \<Rightarrow>
                       (let st1 = read_outputs application_config nm st
                        in case read_params (CREATE_VPC_DB_SUBNET D) application_config body
                                  block1 flag of
                             Inl e \<Rightarrow> (Inl e, st1)
                           | Inr (block2, flag') \<Rightarrow>
                               (Inr flag',
                                st1\<lparr>files := files st1 @
                                       [(stack_file D stack_type,
                                         PDict [(''module'', PDict [(nm, PDict block2)])])]\<rparr>)))))"

text \<open>The loop of line 50 over \<open>self.stacks\<close>: it stops at the first exception.\<close>

fun modules_loop ::
  "deps \<Rightarrow> module list \<Rightarrow> bool \<Rightarrow> run_state \<Rightarrow> (error + bool) \<times> run_state" where
  "modules_loop D [] flag st = (Inr flag, st)"
| "modules_loop D (m # rest) flag st =
     (case process_module D m flag st of
        (Inl e, st') \<Rightarrow> (Inl e, st')
      | (Inr flag', st') \<Rightarrow> modules_loop D rest flag' st')"

definition vpc_file :: "deps \<Rightarrow> string" where
  "vpc_file D = ''./'' @ TF_PATH D @ ''/'' @ ''vpc'' @ ''.tf.json''"

definition vpc_module :: "bool \<Rightarrow> pyval" where
  "vpc_module create_vpc_database_subnets =
     PDict [(''module'',
             PDict [(''vpc'',
                     PDict [(''source'', PStr (''../modules/cloud/aws/'' @ ''vpc'')),
                            (''create_database_subnets'', PBool create_vpc_database_subnets)])])]"

definition process_stack_modules ::
  "deps \<Rightarrow> stack_self \<Rightarrow> run_state \<Rightarrow> (error + unit) \<times> run_state" where
  "process_stack_modules D self st =
     (case modules_loop D (stacks self) False st of
        (Inl e, st') \<Rightarrow> (Inl e, st')
      | (Inr create_vpc_database_subnets, st') \<Rightarrow>
          (if provider self = EnumMember AWS then
             (Inr (), st'\<lparr>files := files st' @
                                [(vpc_file D, vpc_module create_vpc_database_subnets)]\<rparr>)
           else (Inr (), st')))"

section \<open>\<open>get_eks_module_refs\<close>\<close>

definition get_eks_module_refs :: "stack_self \<Rightarrow> string option \<Rightarrow> dict option" where
  "get_eks_module_refs self k8s_module_name =
     (let module_source =
            (case k8s_module_name of
               None \<Rightarrow> ''data.terraform_remote_state.parent.outputs''
             | Some n \<Rightarrow>
                 (if length n \<noteq> 0 then ''module.'' @ n
                  else ''data.terraform_remote_state.parent.outputs''))
      in if provider self = RawStr ''aws'' then
           Some [(''host'', PStr (''${'' @ module_source @ ''.k8s_endpoint}'')),
                 (''token'', PStr ''${data.aws_eks_cluster_auth.k8s.token}''),
                 (''cluster_ca_certificate'',
                  PStr (''${base64decode('' @ module_source @ ''.k8s_ca_data)}''))]
         else None)"

section \<open>\<open>process_stack_outputs\<close> and \<open>generate\<close>\<close>

definition output_file :: "deps \<Rightarrow> string" where
  "output_file D = ''./'' @ TF_PATH D @ ''/output.tf.json''"

definition state_storage :: "stack_self \<Rightarrow> pyval" where
  "state_storage self = PDict [(''state_storage'', PDict [(''value'', PStr (state_file_name self))])]"

definition providers_block :: "stack_self \<Rightarrow> pyval" where
  "providers_block self =
     PDict [(''providers'',
             PDict [(''value'',
                     PDict [(''aws'',
                             PDict [(''region'', PStr (region self)),
                                    (''account_id'', PStr (account_id self))])])])]"

definition process_stack_outputs :: "deps \<Rightarrow> stack_self \<Rightarrow> run_state \<Rightarrow> run_state" where
  "process_stack_outputs D self st =
     (let out = self_output st @ [state_storage self] @ [providers_block self]
      in st\<lparr>self_output := out,
            files := files st @ [(output_file D, PDict [(''output'', PList out)])]\<rparr>)"

text \<open>\<open>generate\<close>: \<open>process_stack_config\<close> and \<open>process_stack_inputs\<close> do nothing; an exception
  of \<open>process_stack_modules\<close> ends the run.\<close>

definition generate :: "deps \<Rightarrow> stack_self \<Rightarrow> run_state \<Rightarrow> (error + unit) \<times> run_state" where
  "generate D self st =
     (case process_stack_modules D self st of
        (Inl e, st') \<Rightarrow> (Inl e, st')
      | (Inr u, st') \<Rightarrow> (Inr (), process_stack_outputs D self st'))"

section \<open>\<open>_default_config_input\<close>\<close>





section \<open>Notions used to state the properties\<close>

text \<open>The module block that a stack file holds: \<open>{"module": {name: block}}\<close>.\<close>

definition module_json :: "string \<Rightarrow> dict \<Rightarrow> pyval" where
  "module_json nm block = PDict [(''module'', PDict [(nm, PDict block)])]"

text \<open>The references that one stack entry adds to the outputs: one per exported output of
  its configuration, in the order of the configuration.\<close>

definition exported_refs :: "deps \<Rightarrow> module \<Rightarrow> pyval list" where
  "exported_refs D m =
     (case m of
        [] \<Rightarrow> []
      | (stack_type, body) # _ \<Rightarrow>
          (case entry_name body of
             None \<Rightarrow> []
           | Some nm \<Rightarrow>
               (case read_config_file D stack_type nm of
                  None \<Rightarrow> []
                | Some c \<Rightarrow>
                    (case outputs c of
                       None \<Rightarrow> []
                     | Some outs \<Rightarrow> map (output_ref nm) (filter out_export outs)))))"

text \<open>A stack entry supplies a subnet-triggering key with a truthy value.\<close>

definition supplies_trigger :: "deps \<Rightarrow> module \<Rightarrow> bool" where
  "supplies_trigger D m =
     (case m of
        [] \<Rightarrow> False
      | (stack_type, body) # _ \<Rightarrow>
          (case entry_params body of
             None \<Rightarrow> False
           | Some items \<Rightarrow>
               list_ex (\<lambda>(k, v). k \<in> set (CREATE_VPC_DB_SUBNET D) \<and> truthy v) items))"

text \<open>A stack entry supplies a subnet-triggering key with a truthy value, and the key is
  the name of an input of the entry's configuration.\<close>

definition declared_trigger :: "deps \<Rightarrow> module \<Rightarrow> bool" where
  "declared_trigger D m =
     (case m of
        [] \<Rightarrow> False
      | (stack_type, body) # _ \<Rightarrow>
          (case entry_name body of
             None \<Rightarrow> False
           | Some nm \<Rightarrow>
               (case entry_params body of
                  None \<Rightarrow> False
                | Some items \<Rightarrow>
                    (case read_config_file D stack_type nm of
                       None \<Rightarrow> False
                     | Some c \<Rightarrow>
                         (case inputs c of
                            None \<Rightarrow> False
                          | Some ins \<Rightarrow>
                              list_ex (\<lambda>(k, v). k \<in> set (CREATE_VPC_DB_SUBNET D) \<and> truthy v
                                                \<and> k \<in> set (map in_name ins)) items)))))"

section \<open>An example configuration\<close>

definition database_inputs :: "input_spec list" where
  "database_inputs =
     [\<lparr>in_name = ''vpc_id'', in_default = PStr ''None'', in_user_facing = False,
       in_value = Some ''module.vpc.vpc_id''\<rparr>,
      \<lparr>in_name = ''engine'', in_default = PStr ''postgres'', in_user_facing = False,
       in_value = None\<rparr>,
      \<lparr>in_name = ''storage_gb'', in_default = PInt 20, in_user_facing = True,
       in_value = None\<rparr>,
      \<lparr>in_name = ''create_database_subnets'', in_default = PBool False,
       in_user_facing = True, in_value = None\<rparr>]"

definition database_outputs :: "output_spec list" where
  "database_outputs =
     [\<lparr>out_name = ''endpoint'', out_export = True\<rparr>,
      \<lparr>out_name = ''password'', out_export = False\<rparr>]"

definition database_config :: application_config where
  "database_config = \<lparr>inputs = Some database_inputs, outputs = Some database_outputs\<rparr>"

definition cache_config :: application_config where
  "cache_config =
     \<lparr>inputs = Some [\<lparr>in_name = ''size'', in_default = PInt 1, in_user_facing = True,
                       in_value = None\<rparr>],
      outputs = None\<rparr>"

text \<open>A configuration that declares outputs and has no key \<open>"inputs"\<close>.\<close>

definition bucket_config :: application_config where
  "bucket_config =
     \<lparr>inputs = None, outputs = Some [\<lparr>out_name = ''arn'', out_export = True\<rparr>]\<rparr>"

text \<open>A configuration in which two inputs that are not user facing have the same name.\<close>

definition shared_inputs :: "input_spec list" where
  "shared_inputs =
     [\<lparr>in_name = ''vpc_id'', in_default = PStr ''None'', in_user_facing = False,
       in_value = Some ''module.vpc.vpc_id''\<rparr>,
      \<lparr>in_name = ''vpc_id'', in_default = PStr ''vpc-1'', in_user_facing = False,
       in_value = None\<rparr>]"

definition shared_config :: application_config where
  "shared_config = \<lparr>inputs = Some shared_inputs, outputs = None\<rparr>"

text \<open>A module directory that holds the configurations of \<open>database/pg\<close>, \<open>cache/redis\<close>,
  \<open>storage/bucket\<close> and \<open>network/shared\<close>, and nothing else.\<close>

definition example_config_file :: "string \<Rightarrow> string \<Rightarrow> application_config option" where
  "example_config_file stack_type application_name =
     (if stack_type = ''database'' \<and> application_name = ''pg'' then Some database_config
      else if stack_type = ''cache'' \<and> application_name = ''redis'' then Some cache_config
      else if stack_type = ''storage'' \<and> application_name = ''bucket'' then Some bucket_config
      else if stack_type = ''network'' \<and> application_name = ''shared'' then Some shared_config
      else None)"

definition bucket_entry :: "dict option \<Rightarrow> module" where
  "bucket_entry ps = [(''storage'', \<lparr>entry_name = Some ''bucket'', entry_params = ps\<rparr>)]"

definition shared_entry :: "dict option \<Rightarrow> module" where
  "shared_entry ps = [(''network'', \<lparr>entry_name = Some ''shared'', entry_params = ps\<rparr>)]"

definition redis_entry :: "dict option \<Rightarrow> module" where
  "redis_entry ps = [(''cache'', \<lparr>entry_name = Some ''redis'', entry_params = ps\<rparr>)]"

definition example_deps :: deps where
  "example_deps =
     \<lparr>TF_PATH = ''tf'', CREATE_VPC_DB_SUBNET = [''create_database_subnets''],
      read_config_file = example_config_file, is_env_match = (\<lambda>n. n = ''dev'')\<rparr>"

definition example_self :: "provider_attr \<Rightarrow> module list \<Rightarrow> stack_self" where
  "example_self p ms =
     \<lparr>state_file_name = ''state'', region = ''eu-central-1'', account_id = ''42'',
      provider = p, stacks = ms\<rparr>"

definition pg_entry :: "dict option \<Rightarrow> module" where
  "pg_entry ps = [(''database'', \<lparr>entry_name = Some ''pg'', entry_params = ps\<rparr>)]"

definition pg_block :: dict where
  "pg_block =
     [(''source'', PStr ''../modules/applications/database/pg/tf_module''),
      (''vpc_id'', PStr ''${ module.vpc.vpc_id }''),
      (''engine'', PStr ''postgres'')]"

lemmas example_defs =
  database_inputs_def database_outputs_def database_config_def cache_config_def
  bucket_config_def shared_inputs_def shared_config_def
  example_config_file_def example_deps_def example_self_def pg_entry_def redis_entry_def
  bucket_entry_def shared_entry_def pg_block_def init_state_def

lemmas run_defs =
  generate_def process_stack_modules_def process_stack_outputs_def process_module_def
  read_inputs_def read_outputs_def read_params_def input_value_def dict_update_def
  stack_file_def module_source_def vpc_file_def vpc_module_def output_file_def output_ref_def
  state_storage_def providers_block_def module_json_def

section \<open>The loop over the stack entries\<close>

lemma modules_loop_append:
  "modules_loop D (xs @ ys) flag st =
     (case modules_loop D xs flag st of
        (Inl e, st') \<Rightarrow> (Inl e, st')
      | (Inr flag', st') \<Rightarrow> modules_loop D ys flag' st')"
  by (induction xs arbitrary: flag st) (auto split: prod.splits sum.splits)

lemma process_module_no_name:
  "entry_name body = None \<Longrightarrow>
   process_module D ((stack_type, body) # others) flag st =
     (Inl (KeyError (''No application assigned to the stack: '' @ stack_type)), st)"
  by (simp add: process_module_def)

lemma pg_entry_alone:
  "modules_loop example_deps [pg_entry None] False init_state =
     (Inr False,
      \<lparr>self_output = [output_ref ''pg'' \<lparr>out_name = ''endpoint'', out_export = True\<rparr>],
       files = [(stack_file example_deps ''database'', module_json ''pg'' pg_block)]\<rparr>)"
  by (simp add: example_defs run_defs)

section \<open>A stack entry without a name\<close>

text \<open>
  Claim C4. A stack entry whose mapping has no key \<open>"name"\<close> makes the run fail with the
  \<open>KeyError\<close> of line 57, whatever else the entry holds. The state is then the one the
  entries before it left: no file is written for the entry, none for the entries after it,
  and the network module is not written either.
\<close>

theorem missing_name_aborts:
  assumes "modules_loop D earlier False st0 = (Inr flag, st)"
      and "entry_name body = None"
  shows "process_stack_modules D
           (self\<lparr>stacks := earlier @ ((stack_type, body) # others) # later\<rparr>) st0 =
           (Inl (KeyError (''No application assigned to the stack: '' @ stack_type)), st)"
  using assms
  by (simp add: process_stack_modules_def modules_loop_append process_module_no_name)

theorem missing_name_aborts_witness:
  "process_stack_modules example_deps
     (example_self (EnumMember AWS)
        [pg_entry None,
         [(''cache'', \<lparr>entry_name = None, entry_params = Some [(''size'', PInt 1)]\<rparr>)],
         pg_entry None]) init_state =
     (Inl (KeyError ''No application assigned to the stack: cache''),
      \<lparr>self_output = [output_ref ''pg'' \<lparr>out_name = ''endpoint'', out_export = True\<rparr>],
       files = [(stack_file example_deps ''database'', module_json ''pg'' pg_block)]\<rparr>)"
  using missing_name_aborts [OF pg_entry_alone, where
      body = "\<lparr>entry_name = None, entry_params = Some [(''size'', PInt 1)]\<rparr>"
      and self = "example_self (EnumMember AWS) []" and stack_type = "''cache''"
      and others = "[]" and later = "[pg_entry None]"]
  by (simp add: example_self_def)

section \<open>\<open>get_eks_module_refs\<close> and the provider enumeration\<close>

text \<open>
  Claim C10. Line 148 compares \<open>self.provider\<close> with the string \<open>"aws"\<close>. For every member
  of the enumeration, \<open>Provider.AWS\<close> too, the comparison is false, the function falls off
  its end and returns \<open>None\<close>, whatever the module name.
\<close>

theorem get_eks_module_refs_enum:
  "get_eks_module_refs (self\<lparr>provider := EnumMember p\<rparr>) k8s_module_name = None"
  by (simp add: get_eks_module_refs_def Let_def)

text \<open>The branch is taken only when the attribute holds the string itself.\<close>

lemma get_eks_module_refs_string:
  "get_eks_module_refs (self\<lparr>provider := RawStr ''aws''\<rparr>) (Some ''eks'') =
     Some [(''host'', PStr ''${module.eks.k8s_endpoint}''),
           (''token'', PStr ''${data.aws_eks_cluster_auth.k8s.token}''),
           (''cluster_ca_certificate'', PStr ''${base64decode(module.eks.k8s_ca_data)}'')]"
  by (simp add: get_eks_module_refs_def Let_def)

section \<open>Environment defaults\<close>




section \<open>Parameters of a stack entry without a configuration\<close>

text \<open>
  When \<open>_read_config_file\<close> returns \<open>None\<close> and the entry has parameters, line 106
  subscripts \<open>None\<close>: the first parameter raises a \<open>TypeError\<close>, not the \<open>KeyError\<close>
  that the class raises for configuration errors. Line 74 tests for \<open>None\<close>; line 106
  does not.
\<close>

lemma params_without_config:
  assumes "entry_name body = Some nm"
      and "read_config_file D stack_type nm = None"
      and "entry_params body = Some (p # items)"
  shows "process_module D ((stack_type, body) # others) flag st =
           (Inl (TypeError not_subscriptable), st)"
  using assms
  by (cases p)
     (simp add: process_module_def read_inputs_def read_outputs_def read_params_def)

text \<open>
  Claim C6. The entry \<open>{"queue": {"name": "rabbit", "params": {"size": 1}}}\<close>, for which
  the example directory has no configuration, ends the run with that \<open>TypeError\<close>.
\<close>

theorem params_without_config_type_error:
  "generate example_deps
     (example_self (EnumMember AWS)
        [[(''queue'', \<lparr>entry_name = Some ''rabbit'', entry_params = Some [(''size'', PInt 1)]\<rparr>)]])
     init_state =
     (Inl (TypeError not_subscriptable), init_state)"
  by (simp add: example_defs run_defs)


section \<open>Dictionaries\<close>

lemma distinct_dict_set: "distinct (map fst d) \<Longrightarrow> distinct (map fst (AList.update k v d))"
  by (rule distinct_update)

lemma map_of_dict_update:
  "distinct (map fst e) \<Longrightarrow> map_of (dict_update d e) = map_of d ++ map_of e"
proof (induction e arbitrary: d)
  case Nil
  then show ?case by (simp add: dict_update_def)
next
  case (Cons p e)
  obtain k v where p: "p = (k, v)" by (cases p)
  from Cons.prems p have k: "k \<notin> fst ` set e" and d: "distinct (map fst e)" by auto
  have "map_of (dict_update d (p # e)) = map_of (dict_update (AList.update k v d) e)"
    by (simp add: dict_update_def p)
  also have "\<dots> = (map_of d)(k \<mapsto> v) ++ map_of e"
    by (simp only: Cons.IH [OF d] update_conv')
  also have "\<dots> = map_of d ++ map_of (p # e)"
  proof (rule ext)
    fix x
    show "((map_of d)(k \<mapsto> v) ++ map_of e) x = (map_of d ++ map_of (p # e)) x"
      using k by (auto simp: p map_add_def map_of_eq_None_iff [symmetric] split: option.splits)
  qed
  finally show ?case .
qed

lemma keys_dict_update: "fst ` set (dict_update d e) = fst ` set d \<union> fst ` set e"
proof (induction e arbitrary: d)
  case Nil
  then show ?case by (simp add: dict_update_def)
next
  case (Cons p e)
  have "dict_update d (p # e) = dict_update (AList.update (fst p) (snd p) d) e"
    by (simp add: dict_update_def case_prod_unfold)
  then show ?case using Cons.IH [of "AList.update (fst p) (snd p) d"]
    by (auto simp: dom_update)
qed

section \<open>Inputs that are not user facing\<close>

lemma find_snoc:
  "find P (xs @ [x]) =
     (case find P xs of Some y \<Rightarrow> Some y | None \<Rightarrow> if P x then Some x else None)"
  by (induction xs) auto

text \<open>
  What the module block holds under a name after the loop over the inputs: the value of
  the last input of that name that is not user facing, and what the block held before when
  there is none.
\<close>

lemma inputs_loop_lookup:
  assumes "inputs_loop ins inps block = Inr b"
      and "distinct (map fst inps)"
      and "map_of inps \<subseteq>\<^sub>m map_of block"
  shows "map_of b n =
           (case find (\<lambda>j. \<not> in_user_facing j \<and> in_name j = n) (rev ins) of
              None \<Rightarrow> map_of block n
            | Some j \<Rightarrow> (case input_value j of Inl e \<Rightarrow> None | Inr v \<Rightarrow> Some v))"
  using assms
proof (induction ins arbitrary: inps block)
  case Nil
  then show ?case by simp
next
  case (Cons i rest)
  show ?case
  proof (cases "in_user_facing i")
    case True
    have blk: "map_of (dict_update block inps) = map_of block"
      using Cons.prems(2,3) by (simp add: map_of_dict_update map_add_subsumed2)
    from True Cons.prems(1) have run: "inputs_loop rest inps (dict_update block inps) = Inr b"
      by simp
    have "map_of inps \<subseteq>\<^sub>m map_of (dict_update block inps)"
      using blk Cons.prems(3) by simp
    from Cons.IH [OF run Cons.prems(2) this] True blk show ?thesis
      by (simp add: find_snoc split: option.splits)
  next
    case False
    with Cons.prems(1) obtain v where v: "input_value i = Inr v"
      and run: "inputs_loop rest (AList.update (in_name i) v inps)
                  (dict_update block (AList.update (in_name i) v inps)) = Inr b"
      by (auto simp: Let_def split: sum.splits)
    let ?inps = "AList.update (in_name i) v inps"
    have d: "distinct (map fst ?inps)" using Cons.prems(2) by (rule distinct_update)
    have blk: "map_of (dict_update block ?inps) = (map_of block)(in_name i \<mapsto> v)"
    proof (rule ext)
      fix x
      show "map_of (dict_update block ?inps) x = ((map_of block)(in_name i \<mapsto> v)) x"
        using Cons.prems(3)
        by (auto simp: map_of_dict_update [OF d] update_conv' map_add_def map_le_def dom_def
                 split: option.splits)
    qed
    have "map_of ?inps \<subseteq>\<^sub>m map_of (dict_update block ?inps)"
      using Cons.prems(3) by (auto simp: blk update_conv' map_le_def)
    from Cons.IH [OF run d this]
    have "map_of b n =
            (case find (\<lambda>j. \<not> in_user_facing j \<and> in_name j = n) (rev rest) of
               None \<Rightarrow> ((map_of block)(in_name i \<mapsto> v)) n
             | Some j \<Rightarrow> (case input_value j of Inl e \<Rightarrow> None | Inr v \<Rightarrow> Some v))"
      unfolding blk .
    with False v show ?thesis
      by (auto simp: find_snoc split: option.splits)
  qed
qed

lemma inputs_loop_values:
  "inputs_loop ins inps block = Inr b \<Longrightarrow> j \<in> set ins \<Longrightarrow> \<not> in_user_facing j \<Longrightarrow>
   \<exists>v. input_value j = Inr v"
  by (induction ins arbitrary: inps block) (auto simp: Let_def split: if_splits sum.splits)

lemma inputs_loop_total:
  "\<forall>j\<in>set ins. \<not> in_user_facing j \<longrightarrow> (\<exists>v. input_value j = Inr v) \<Longrightarrow>
   \<exists>b. inputs_loop ins inps block = Inr b"
  by (induction ins arbitrary: inps block) (auto simp: Let_def split: if_splits sum.splits)

section \<open>Parameters of a stack entry\<close>

text \<open>The inner loop in closed form: it raises when an input of the parameter's name is
  not user facing, and stores the parameter when an input has its name.\<close>

lemma match_inputs_eq:
  "match_inputs C key v ins (ps, flag) =
     (if \<exists>j\<in>set ins. in_name j = key \<and> \<not> in_user_facing j
      then Inl (KeyError (key @ '' is not a user facing parameter''))
      else Inr (if key \<in> in_name ` set ins then AList.update key v ps else ps,
                flag \<or> (key \<in> in_name ` set ins \<and> key \<in> set C \<and> truthy v)))"
  by (induction ins arbitrary: ps flag) auto

lemma match_inputs_unmatched:
  "key \<notin> in_name ` set ins \<Longrightarrow> match_inputs C key v ins acc = Inr acc"
  by (cases acc) (auto simp: match_inputs_eq)

lemma params_loop_flag:
  assumes "params_loop C (Some c) items (ps, flag) = Inr (ps', flag')"
      and "inputs c = Some ins"
  shows "flag' = (flag \<or> list_ex (\<lambda>(k, v). k \<in> set C \<and> truthy v \<and> k \<in> set (map in_name ins)) items)"
  using assms
proof (induction items arbitrary: ps flag)
  case Nil
  then show ?case by simp
next
  case (Cons p items)
  obtain k v where p: "p = (k, v)" by (cases p)
  from Cons.prems obtain ps1 flag1
    where m: "match_inputs C k v ins (ps, flag) = Inr (ps1, flag1)"
      and r: "params_loop C (Some c) items (ps1, flag1) = Inr (ps', flag')"
    by (auto simp: p split: sum.splits)
  from m have "flag1 = (flag \<or> (k \<in> in_name ` set ins \<and> k \<in> set C \<and> truthy v))"
    by (auto simp: match_inputs_eq split: if_splits)
  with Cons.IH [OF r Cons.prems(2)] show ?case
    by (auto simp: p)
qed

lemma params_loop_error:
  assumes "inputs c = Some ins"
      and "\<exists>p\<in>set items. \<exists>j\<in>set ins. in_name j = fst p \<and> \<not> in_user_facing j"
  shows "\<exists>k\<in>fst ` set items. (\<exists>j\<in>set ins. in_name j = k \<and> \<not> in_user_facing j) \<and>
           params_loop C (Some c) items acc = Inl (KeyError (k @ '' is not a user facing parameter''))"
  using assms
proof (induction items arbitrary: acc)
  case Nil
  then show ?case by simp
next
  case (Cons p items)
  obtain k v where p: "p = (k, v)" by (cases p)
  obtain ps flag where acc: "acc = (ps, flag)" by (cases acc)
  show ?case
  proof (cases "\<exists>j\<in>set ins. in_name j = k \<and> \<not> in_user_facing j")
    case True
    then have "params_loop C (Some c) (p # items) acc =
                 Inl (KeyError (k @ '' is not a user facing parameter''))"
      using Cons.prems(1) by (simp add: p acc match_inputs_eq)
    with True show ?thesis by (auto simp: p)
  next
    case False
    with Cons.prems(2) have rest: "\<exists>p\<in>set items. \<exists>j\<in>set ins. in_name j = fst p \<and> \<not> in_user_facing j"
      by (auto simp: p)
    from False obtain acc1 where m: "match_inputs C k v ins acc = Inr acc1"
      by (auto simp: acc match_inputs_eq)
    from Cons.IH [OF Cons.prems(1) rest, of acc1] m Cons.prems(1) show ?thesis
      by (auto simp: p)
  qed
qed

lemma params_loop_total:
  assumes "inputs c = Some ins"
      and "\<forall>p\<in>set items. \<forall>j\<in>set ins. in_name j = fst p \<longrightarrow> in_user_facing j"
  shows "\<exists>r. params_loop C (Some c) items acc = Inr r"
  using assms
proof (induction items arbitrary: acc)
  case Nil
  then show ?case by simp
next
  case (Cons p items)
  obtain k v where p: "p = (k, v)" by (cases p)
  obtain ps flag where acc: "acc = (ps, flag)" by (cases acc)
  from Cons.prems(2) obtain acc1 where m: "match_inputs C k v ins acc = Inr acc1"
    by (auto simp: p acc match_inputs_eq)
  from Cons.prems(2) have "\<forall>p\<in>set items. \<forall>j\<in>set ins. in_name j = fst p \<longrightarrow> in_user_facing j"
    by simp
  from Cons.IH [OF Cons.prems(1) this, of acc1] m Cons.prems(1) show ?case
    by (simp add: p)
qed

lemma params_loop_user_facing:
  assumes "params_loop C (Some c) items acc = Inr r"
      and "inputs c = Some ins"
      and "p \<in> set items" and "j \<in> set ins" and "in_name j = fst p"
  shows "in_user_facing j"
proof (rule ccontr)
  assume "\<not> in_user_facing j"
  with assms(3-5) have "\<exists>p\<in>set items. \<exists>j\<in>set ins. in_name j = fst p \<and> \<not> in_user_facing j"
    by blast
  from params_loop_error [OF assms(2) this, of C acc] assms(1) show False by auto
qed

lemma params_loop_keys:
  assumes "params_loop C (Some c) items (ps, flag) = Inr (ps', flag')"
      and "inputs c = Some ins"
  shows "fst ` set ps' = fst ` set ps \<union> (fst ` set items \<inter> in_name ` set ins)"
  using assms
proof (induction items arbitrary: ps flag)
  case Nil
  then show ?case by simp
next
  case (Cons p items)
  obtain k v where p: "p = (k, v)" by (cases p)
  from Cons.prems obtain ps1 flag1
    where m: "match_inputs C k v ins (ps, flag) = Inr (ps1, flag1)"
      and r: "params_loop C (Some c) items (ps1, flag1) = Inr (ps', flag')"
    by (auto simp: p split: sum.splits)
  from m have "ps1 = (if k \<in> in_name ` set ins then AList.update k v ps else ps)"
    by (simp add: match_inputs_eq split: if_splits)
  then have "fst ` set ps1 = fst ` set ps \<union> ({k} \<inter> in_name ` set ins)"
    by (cases "k \<in> in_name ` set ins") (simp_all add: dom_update)
  with Cons.IH [OF r Cons.prems(2)] show ?case
    by (auto simp: p)
qed

lemma params_loop_distinct:
  assumes "params_loop C (Some c) items (ps, flag) = Inr (ps', flag')"
      and "inputs c = Some ins"
      and "distinct (map fst ps)"
  shows "distinct (map fst ps')"
  using assms
proof (induction items arbitrary: ps flag)
  case Nil
  then show ?case by simp
next
  case (Cons p items)
  obtain k v where p: "p = (k, v)" by (cases p)
  from Cons.prems obtain ps1 flag1
    where m: "match_inputs C k v ins (ps, flag) = Inr (ps1, flag1)"
      and r: "params_loop C (Some c) items (ps1, flag1) = Inr (ps', flag')"
    by (auto simp: p split: sum.splits)
  from m Cons.prems(3) have "distinct (map fst ps1)"
    by (auto simp: match_inputs_eq distinct_update split: if_splits)
  from Cons.IH [OF r Cons.prems(2) this] show ?case .
qed

text \<open>A parameter that names an input is stored with the value supplied, when the keys of
  the parameters are distinct, as the keys of a dictionary are.\<close>

lemma params_loop_lookup:
  assumes "params_loop C (Some c) items (ps, flag) = Inr (ps', flag')"
      and "inputs c = Some ins"
      and "distinct (map fst items)"
  shows "map_of ps' k =
           (if k \<in> fst ` set items \<inter> in_name ` set ins then map_of items k else map_of ps k)"
  using assms
proof (induction items arbitrary: ps flag)
  case Nil
  then show ?case by simp
next
  case (Cons p items)
  obtain k' v where p: "p = (k', v)" by (cases p)
  from Cons.prems obtain ps1 flag1
    where m: "match_inputs C k' v ins (ps, flag) = Inr (ps1, flag1)"
      and r: "params_loop C (Some c) items (ps1, flag1) = Inr (ps', flag')"
    by (auto simp: p split: sum.splits)
  from Cons.prems(3) have d: "distinct (map fst items)" and notin: "k' \<notin> fst ` set items"
    by (auto simp: p)
  from m have ps1: "map_of ps1 k = (if k = k' \<and> k' \<in> in_name ` set ins then Some v else map_of ps k)"
    by (auto simp: match_inputs_eq update_conv' split: if_splits)
  from Cons.IH [OF r Cons.prems(2) d] ps1 notin show ?case
    by (auto simp: p)
qed

lemma params_loop_filter:
  assumes "inputs c = Some ins" and "key \<notin> in_name ` set ins"
  shows "params_loop C (Some c) (filter (\<lambda>p. fst p \<noteq> key) items) acc =
         params_loop C (Some c) items acc"
  using assms
proof (induction items arbitrary: acc)
  case Nil
  then show ?case by simp
next
  case (Cons p items)
  obtain k v where p: "p = (k, v)" by (cases p)
  show ?case
  proof (cases "k = key")
    case True
    with Cons show ?thesis by (simp add: p match_inputs_unmatched)
  next
    case False
    with Cons show ?thesis by (simp add: p split: sum.splits)
  qed
qed

section \<open>Exported outputs\<close>

lemma outputs_loop_eq:
  "outputs_loop nm outs acc = acc @ map (output_ref nm) (filter out_export outs)"
  by (induction outs arbitrary: acc) auto

section \<open>One stack entry\<close>

text \<open>What a stack entry that is processed without an exception has done.\<close>

lemma process_module_success:
  assumes "process_module D ((stack_type, body) # others) flag st = (Inr flag', st')"
  obtains nm block1 block2 where
    "entry_name body = Some nm"
    "read_inputs (read_config_file D stack_type nm) [(''source'', module_source stack_type nm)]
       = Inr block1"
    "read_params (CREATE_VPC_DB_SUBNET D) (read_config_file D stack_type nm) body block1 flag
       = Inr (block2, flag')"
    "st' = (read_outputs (read_config_file D stack_type nm) nm st)
             \<lparr>files := files st @ [(stack_file D stack_type, module_json nm block2)]\<rparr>"
  using assms
  by (auto simp: process_module_def Let_def module_json_def read_outputs_def
           split: option.splits sum.splits prod.splits)

lemma process_module_files_error:
  "process_module D m flag st = (Inl e, st') \<Longrightarrow> files st' = files st"
  by (auto simp: process_module_def Let_def read_outputs_def
           split: list.splits option.splits sum.splits prod.splits)

lemma process_module_output:
  assumes "process_module D m flag st = (Inr flag', st')"
  shows "self_output st' = self_output st @ exported_refs D m"
proof (cases m)
  case Nil
  with assms show ?thesis by (simp add: process_module_def)
next
  case (Cons a others)
  obtain stack_type body where a: "a = (stack_type, body)" by (cases a)
  from assms show ?thesis
    unfolding Cons a
    by (elim process_module_success)
       (auto simp: exported_refs_def read_outputs_def outputs_loop_eq split: option.splits)
qed

lemma modules_loop_output:
  "modules_loop D ms flag st = (Inr flag', st') \<Longrightarrow>
   self_output st' = self_output st @ concat (map (exported_refs D) ms)"
proof (induction ms arbitrary: flag st)
  case Nil
  then show ?case by simp
next
  case (Cons m ms)
  from Cons.prems obtain flag1 st1
    where m: "process_module D m flag st = (Inr flag1, st1)"
      and r: "modules_loop D ms flag1 st1 = (Inr flag', st')"
    by (auto split: prod.splits sum.splits)
  from Cons.IH [OF r] process_module_output [OF m] show ?case by simp
qed

lemma read_params_cases:
  assumes "read_params C cfg body block1 flag = Inr (block2, flag')"
  obtains (no_params) "entry_params body = None" "block2 = block1" "flag' = flag"
        | (params) items params where "entry_params body = Some items"
            "params_loop C cfg items ([], flag) = Inr (params, flag')"
            "block2 = dict_update block1 params"
  using assms by (auto simp: read_params_def split: option.splits sum.splits)

lemma params_loop_no_inputs:
  assumes "params_loop C cfg items acc = Inr r"
      and "cfg = None \<or> (\<exists>c. cfg = Some c \<and> inputs c = None)"
  shows "items = []"
  using assms by (cases items) (auto split: option.splits)

lemma process_module_flag:
  assumes "process_module D m flag st = (Inr flag', st')"
  shows "flag' = (flag \<or> declared_trigger D m)"
proof (cases m)
  case Nil
  with assms show ?thesis by (simp add: process_module_def)
next
  case (Cons a others)
  obtain stack_type body where a: "a = (stack_type, body)" by (cases a)
  from assms [unfolded Cons a] show ?thesis
  proof (elim process_module_success)
    fix nm block1 block2
    assume nm: "entry_name body = Some nm"
      and rp: "read_params (CREATE_VPC_DB_SUBNET D) (read_config_file D stack_type nm) body
                 block1 flag = Inr (block2, flag')"
    from rp show ?thesis
    proof (cases rule: read_params_cases)
      case no_params
      with nm show ?thesis by (simp add: declared_trigger_def Cons a)
    next
      case (params items ps)
      show ?thesis
      proof (cases "read_config_file D stack_type nm")
        case None
        with params(2) have "items = []" by (auto dest: params_loop_no_inputs)
        with params nm None show ?thesis by (simp add: declared_trigger_def Cons a)
      next
        case (Some c)
        show ?thesis
        proof (cases "inputs c")
          case None
          with params(2) \<open>read_config_file D stack_type nm = Some c\<close>
          have "items = []" by (auto dest: params_loop_no_inputs)
          with params nm None \<open>read_config_file D stack_type nm = Some c\<close> show ?thesis
            by (simp add: declared_trigger_def Cons a)
        next
          case (Some ins)
          with params(2) \<open>read_config_file D stack_type nm = Some c\<close>
          have "flag' = (flag \<or> list_ex (\<lambda>(k, v). k \<in> set (CREATE_VPC_DB_SUBNET D) \<and> truthy v
                                        \<and> k \<in> set (map in_name ins)) items)"
            by (auto dest: params_loop_flag)
          with params(1) nm Some \<open>read_config_file D stack_type nm = Some c\<close> show ?thesis
            by (simp add: declared_trigger_def Cons a)
        qed
      qed
    qed
  qed
qed

lemma process_module_files:
  assumes "process_module D m flag st = (Inr flag', st')"
  shows "\<exists>f. files st' = files st @ [f] \<and> fst f \<noteq> vpc_file D"
proof (cases m)
  case Nil
  with assms show ?thesis by (simp add: process_module_def)
next
  case (Cons a others)
  obtain stack_type body where a: "a = (stack_type, body)" by (cases a)
  from assms [unfolded Cons a] show ?thesis
    by (elim process_module_success)
       (auto simp: read_outputs_def stack_file_def vpc_file_def split: option.splits)
qed

lemma modules_loop_files:
  "modules_loop D ms flag st = (Inr flag', st') \<Longrightarrow>
   \<exists>fs. files st' = files st @ fs \<and> length fs = length ms \<and> vpc_file D \<notin> fst ` set fs \<and>
        flag' = (flag \<or> list_ex (declared_trigger D) ms)"
proof (induction ms arbitrary: flag st)
  case Nil
  then show ?case by simp
next
  case (Cons m ms)
  from Cons.prems obtain flag1 st1
    where m: "process_module D m flag st = (Inr flag1, st1)"
      and r: "modules_loop D ms flag1 st1 = (Inr flag', st')"
    by (auto split: prod.splits sum.splits)
  from process_module_files [OF m] obtain f
    where f: "files st1 = files st @ [f]" "fst f \<noteq> vpc_file D" by blast
  from Cons.IH [OF r] obtain fs
    where fs: "files st' = files st1 @ fs" "length fs = length ms" "vpc_file D \<notin> fst ` set fs"
      "flag' = (flag1 \<or> list_ex (declared_trigger D) ms)" by blast
  have "files st' = files st @ (f # fs)" using f fs by simp
  moreover have "length (f # fs) = length (m # ms)" using fs by simp
  moreover have "vpc_file D \<notin> fst ` set (f # fs)" using f fs by auto
  moreover have "flag' = (flag \<or> list_ex (declared_trigger D) (m # ms))"
    using fs process_module_flag [OF m] by auto
  ultimately show ?case by blast
qed

section \<open>The network module\<close>

text \<open>
  Claim C1, as stated, fails: with the provider AWS, the entry
  \<open>{"cache": {"name": "redis", "params": {"create_database_subnets": true}}}\<close> supplies a
  subnet-triggering key with a truthy value, the configuration of \<open>cache/redis\<close> declares
  no input of that name, the parameter is dropped, and the network module is written with
  \<open>create_database_subnets\<close> false.
\<close>

theorem vpc_flag_counterexample:
  "list_ex (supplies_trigger example_deps)
     [redis_entry (Some [(''create_database_subnets'', PBool True)])] \<and>
   process_stack_modules example_deps
     (example_self (EnumMember AWS)
        [redis_entry (Some [(''create_database_subnets'', PBool True)])]) init_state =
     (Inr (),
      \<lparr>self_output = [],
       files = [(stack_file example_deps ''cache'',
                 module_json ''redis''
                   [(''source'', PStr ''../modules/applications/cache/redis/tf_module'')]),
                (vpc_file example_deps, vpc_module False)]\<rparr>)"
  by (simp add: example_defs run_defs supplies_trigger_def)

text \<open>
  Claim C1, amended. A run of \<open>process_stack_modules\<close> that ends without an exception has
  written one file per stack entry, none of them the file of the network module, and after
  them, when the provider is \<open>Provider.AWS\<close>, the network module \<open>vpc\<close> once, and nothing
  when the provider is anything else. Its attribute \<open>create_database_subnets\<close> is true if
  and only if some stack entry supplied a subnet-triggering key with a truthy value that is
  the name of an input of the entry's configuration.
\<close>

theorem vpc_injection:
  assumes "process_stack_modules D self st = (Inr (), st')"
  shows "\<exists>stack_files.
           length stack_files = length (stacks self) \<and>
           vpc_file D \<notin> fst ` set stack_files \<and>
           files st' = files st @ stack_files @
             (if provider self = EnumMember AWS
              then [(vpc_file D, vpc_module (list_ex (declared_trigger D) (stacks self)))]
              else [])"
proof -
  from assms obtain flag st1
    where loop: "modules_loop D (stacks self) False st = (Inr flag, st1)"
      and st': "st' = (if provider self = EnumMember AWS
                       then st1\<lparr>files := files st1 @ [(vpc_file D, vpc_module flag)]\<rparr>
                       else st1)"
    by (auto simp: process_stack_modules_def split: prod.splits sum.splits if_splits)
  from modules_loop_files [OF loop] obtain fs
    where "files st1 = files st @ fs" "length fs = length (stacks self)"
      "vpc_file D \<notin> fst ` set fs" "flag = list_ex (declared_trigger D) (stacks self)"
    by auto
  with st' show ?thesis by auto
qed

theorem vpc_injection_witness:
  "\<exists>stack_files.
     length stack_files = 2 \<and>
     vpc_file example_deps \<notin> fst ` set stack_files \<and>
     files (snd (process_stack_modules example_deps
                   (example_self (EnumMember AWS)
                      [redis_entry (Some [(''create_database_subnets'', PBool True)]),
                       pg_entry (Some [(''create_database_subnets'', PBool True)])])
                   init_state)) =
       stack_files @ [(vpc_file example_deps, vpc_module True)]"
proof -
  let ?self = "example_self (EnumMember AWS)
                 [redis_entry (Some [(''create_database_subnets'', PBool True)]),
                  pg_entry (Some [(''create_database_subnets'', PBool True)])]"
  let ?st = "\<lparr>self_output = [output_ref ''pg'' \<lparr>out_name = ''endpoint'', out_export = True\<rparr>],
       files = [(stack_file example_deps ''cache'',
                 module_json ''redis''
                   [(''source'', PStr ''../modules/applications/cache/redis/tf_module'')]),
                (stack_file example_deps ''database'',
                 module_json ''pg'' (pg_block @ [(''create_database_subnets'', PBool True)])),
                (vpc_file example_deps, vpc_module True)]\<rparr>"
  have run: "process_stack_modules example_deps ?self init_state = (Inr (), ?st)"
    by (simp add: example_defs run_defs)
  have yes: "list_ex (declared_trigger example_deps) (stacks ?self)"
    by (simp add: example_defs declared_trigger_def)
  from vpc_injection [OF run] obtain sf
    where "length sf = length (stacks ?self)" "vpc_file example_deps \<notin> fst ` set sf"
      "files ?st = files init_state @ sf @
         (if provider ?self = EnumMember AWS
          then [(vpc_file example_deps,
                 vpc_module (list_ex (declared_trigger example_deps) (stacks ?self)))]
          else [])"
    by blast
  with yes have "length sf = 2 \<and> vpc_file example_deps \<notin> fst ` set sf \<and>
      files (snd (process_stack_modules example_deps ?self init_state)) =
        sf @ [(vpc_file example_deps, vpc_module True)]"
    unfolding run by (simp add: example_self_def init_state_def)
  then show ?thesis by blast
qed


text \<open>The module block that a successful stack entry writes, split into what the inputs
  and what the parameters put there.\<close>

lemma process_module_block:
  assumes "process_module D ((stack_type, body) # others) flag st = (Inr flag', st')"
      and "entry_name body = Some nm"
      and "read_config_file D stack_type nm = Some c"
      and "inputs c = Some ins"
  obtains block1 block2 params where
    "last (files st') = (stack_file D stack_type, module_json nm block2)"
    "inputs_loop ins [] [(''source'', module_source stack_type nm)] = Inr block1"
    "params_loop (CREATE_VPC_DB_SUBNET D) (Some c)
       (case entry_params body of None \<Rightarrow> [] | Some items \<Rightarrow> items) ([], flag)
       = Inr (params, flag')"
    "distinct (map fst params)"
    "map_of block2 = map_of block1 ++ map_of params"
proof -
  from assms(1) obtain nm' block1 block2 where
    nm': "entry_name body = Some nm'" and
    ri: "read_inputs (read_config_file D stack_type nm') [(''source'', module_source stack_type nm')]
       = Inr block1" and
    rp: "read_params (CREATE_VPC_DB_SUBNET D) (read_config_file D stack_type nm') body block1 flag
       = Inr (block2, flag')" and
    st': "st' = (read_outputs (read_config_file D stack_type nm') nm' st)
             \<lparr>files := files st @ [(stack_file D stack_type, module_json nm' block2)]\<rparr>"
    by (rule process_module_success)
  from nm' assms(2) have [simp]: "nm' = nm" by simp
  from st' have 1: "last (files st') = (stack_file D stack_type, module_json nm block2)"
    by simp
  from ri assms(3,4)
  have 2: "inputs_loop ins [] [(''source'', module_source stack_type nm)] = Inr block1"
    by (simp add: read_inputs_def)
  from rp [simplified, unfolded assms(3)] show ?thesis
  proof (cases rule: read_params_cases)
    case no_params
    with 1 2 that [of block2 block1 "[]"] show ?thesis by simp
  next
    case (params items ps)
    from params_loop_distinct [OF params(2) assms(4)] have d: "distinct (map fst ps)" by simp
    from params(3) d have "map_of block2 = map_of block1 ++ map_of ps"
      by (simp add: map_of_dict_update)
    with 1 2 params(1,2) d that [of block2 block1 ps] show ?thesis by simp
  qed
qed

lemma inputs_loop_keys:
  assumes "inputs_loop ins [] block = Inr b" and "n \<notin> in_name ` set ins"
  shows "map_of b n = map_of block n"
proof -
  from assms(2) have "find (\<lambda>j. \<not> in_user_facing j \<and> in_name j = n) (rev ins) = None"
    by (auto simp: find_None_iff)
  with inputs_loop_lookup [OF assms(1), of n] show ?thesis by simp
qed

lemma find_Some_set: "find P xs = Some x \<Longrightarrow> x \<in> set xs \<and> P x"
  by (induction xs) (auto split: if_splits)

lemma find_first_match:
  "\<forall>x\<in>set xs. \<not> P x \<Longrightarrow> P y \<Longrightarrow> find P (xs @ y # ys) = Some y"
  by (induction xs) auto

text \<open>Searching the inputs from the end, an input that is not user facing is the first of
  its name when no input after it that is not user facing has its name.\<close>

lemma find_last_internal:
  assumes "\<not> in_user_facing i"
      and "\<forall>j\<in>set later. \<not> in_user_facing j \<longrightarrow> in_name j \<noteq> in_name i"
  shows "find (\<lambda>j. \<not> in_user_facing j \<and> in_name j = in_name i) (rev (earlier @ i # later))
           = Some i"
proof -
  have "find (\<lambda>j. \<not> in_user_facing j \<and> in_name j = in_name i)
          (rev later @ i # rev earlier) = Some i"
    using assms by (intro find_first_match) auto
  then show ?thesis by simp
qed

text \<open>When two inputs that are not user facing share a name, the block holds the value of
  the later one.\<close>

lemma inputs_loop_same_name:
  "inputs_loop
     [\<lparr>in_name = ''vpc_id'', in_default = PStr ''None'', in_user_facing = False,
       in_value = Some ''module.vpc.vpc_id''\<rparr>,
      \<lparr>in_name = ''vpc_id'', in_default = PStr ''vpc-1'', in_user_facing = False,
       in_value = None\<rparr>] [] [] =
     Inr [(''vpc_id'', PStr ''vpc-1'')]"
  by (simp add: input_value_def dict_update_def)

section \<open>The aggregated outputs\<close>

text \<open>
  Claim C7. When \<open>generate\<close> runs on a new object, whose list of outputs is empty, and
  ends without an exception, the last file written is the output artifact. Its list holds
  the references of the exported outputs of all stack entries, one per exported output, in
  the order of the stack entries and, within an entry, of its configuration, each with the
  value \<open>${ module.<name>.<output> }\<close>, and after them two entries: the state storage and
  the block of the provider with region and account id.
\<close>

theorem exported_outputs_artifact:
  assumes "generate D self st0 = (Inr (), st)"
      and "self_output st0 = []"
  shows "last (files st) =
           (output_file D,
            PDict [(''output'',
                    PList (concat (map (exported_refs D) (stacks self)) @
                           [state_storage self, providers_block self]))])"
proof -
  from assms(1) obtain st1
    where pm: "process_stack_modules D self st0 = (Inr (), st1)"
      and st: "st = process_stack_outputs D self st1"
    by (auto simp: generate_def split: prod.splits sum.splits)
  from pm obtain flag st2
    where loop: "modules_loop D (stacks self) False st0 = (Inr flag, st2)"
      and "self_output st1 = self_output st2"
    by (auto simp: process_stack_modules_def split: prod.splits sum.splits if_splits)
  with modules_loop_output [OF loop] assms(2)
  have "self_output st1 = concat (map (exported_refs D) (stacks self))" by simp
  with st show ?thesis by (simp add: process_stack_outputs_def Let_def)
qed

theorem exported_outputs_artifact_witness:
  "last (files (snd (generate example_deps
                       (example_self (EnumMember GCP) [redis_entry None, pg_entry None])
                       init_state))) =
     (''./tf/output.tf.json'',
      PDict [(''output'',
              PList [PDict [(''endpoint'', PDict [(''value'', PStr ''${ module.pg.endpoint }'')])],
                     PDict [(''state_storage'', PDict [(''value'', PStr ''state'')])],
                     PDict [(''providers'',
                             PDict [(''value'',
                                     PDict [(''aws'',
                                             PDict [(''region'', PStr ''eu-central-1''),
                                                    (''account_id'', PStr ''42'')])])])]])])"
proof -
  let ?self = "example_self (EnumMember GCP) [redis_entry None, pg_entry None]"
  obtain r st where run: "generate example_deps ?self init_state = (r, st)"
    by (cases "generate example_deps ?self init_state")
  then have r: "r = Inr ()"
    by (simp add: example_defs run_defs)
  have "self_output init_state = []" by (simp add: init_state_def)
  from exported_outputs_artifact [OF run [unfolded r] this] show ?thesis
    unfolding run
    by (simp add: example_defs exported_refs_def output_file_def output_ref_def
                  state_storage_def providers_block_def)
qed

section \<open>Parameters that name a user facing input\<close>

text \<open>
  Claim C8. When a stack entry is processed without an exception and one of its
  parameters names an input of its configuration that is user facing, the module block
  written for the entry holds the key with the value supplied. The keys of the parameters
  are distinct, as the keys of a dictionary are.
\<close>

theorem user_facing_param_passed:
  assumes "process_module D ((stack_type, body) # others) flag st = (Inr flag', st')"
      and "entry_name body = Some nm"
      and "read_config_file D stack_type nm = Some c"
      and "inputs c = Some ins"
      and "entry_params body = Some items"
      and "distinct (map fst items)"
      and "(key, v) \<in> set items"
      and "i \<in> set ins" and "in_name i = key" and "in_user_facing i"
  shows "\<exists>block. last (files st') = (stack_file D stack_type, module_json nm block) \<and>
                 map_of block key = Some v"
proof -
  from assms(1-4) obtain block1 block2 params where
    lst: "last (files st') = (stack_file D stack_type, module_json nm block2)" and
    pl: "params_loop (CREATE_VPC_DB_SUBNET D) (Some c)
           (case entry_params body of None \<Rightarrow> [] | Some items \<Rightarrow> items) ([], flag)
           = Inr (params, flag')" and
    blk: "map_of block2 = map_of block1 ++ map_of params"
    by (rule process_module_block)
  from pl assms(5)
  have pl': "params_loop (CREATE_VPC_DB_SUBNET D) (Some c) items ([], flag) = Inr (params, flag')"
    by simp
  from assms(6,7) have "map_of items key = Some v" by simp
  moreover from assms(7-9) have "key \<in> fst ` set items \<inter> in_name ` set ins" by force
  ultimately have "map_of params key = Some v"
    using params_loop_lookup [OF pl' assms(4,6), of key] by simp
  with blk have "map_of block2 key = Some v" by simp
  with lst show ?thesis by blast
qed

theorem user_facing_param_passed_witness:
  "\<exists>block. last (files (snd (process_module example_deps
                               (pg_entry (Some [(''storage_gb'', PInt 50)])) False init_state))) =
             (''./tf/stack_database.tf.json'', module_json ''pg'' block) \<and>
           map_of block ''storage_gb'' = Some (PInt 50)"
proof -
  let ?body = "\<lparr>entry_name = Some ''pg'', entry_params = Some [(''storage_gb'', PInt 50)]\<rparr>"
  let ?i = "\<lparr>in_name = ''storage_gb'', in_default = PInt 20, in_user_facing = True,
             in_value = None\<rparr>"
  obtain r st where run: "process_module example_deps [(''database'', ?body)] False init_state = (r, st)"
    by (cases "process_module example_deps [(''database'', ?body)] False init_state")
  then have r: "r = Inr False" by (simp add: example_defs run_defs)
  have "\<exists>block. last (files st) = (stack_file example_deps ''database'', module_json ''pg'' block) \<and>
                 map_of block ''storage_gb'' = Some (PInt 50)"
    by (rule user_facing_param_passed [OF run [unfolded r], where c = database_config
          and ins = database_inputs and items = "[(''storage_gb'', PInt 50)]" and i = ?i])
       (simp_all add: example_defs)
  then show ?thesis
    unfolding pg_entry_def run snd_conv
    by (simp add: stack_file_def example_deps_def)
qed

section \<open>Inputs that are not user facing, in the module block\<close>

text \<open>
  Claim C2, as stated, fails: the configuration of \<open>network/shared\<close> declares the input
  \<open>vpc_id\<close> twice, both times not user facing, first with the default \<open>"None"\<close> and the
  value \<open>module.vpc.vpc_id\<close>, then with the default \<open>"vpc-1"\<close>. The entry
  \<open>{"network": {"name": "shared"}}\<close> is processed without an exception, and the attribute
  \<open>vpc_id\<close> of the module block written is \<open>"vpc-1"\<close>: for the first input it is not the
  expression built from its field \<open>value\<close>.
\<close>

theorem shadowed_input_counterexample:
  "read_config_file example_deps ''network'' ''shared'' =
     Some \<lparr>inputs = Some [\<lparr>in_name = ''vpc_id'', in_default = PStr ''None'',
                             in_user_facing = False, in_value = Some ''module.vpc.vpc_id''\<rparr>,
                            \<lparr>in_name = ''vpc_id'', in_default = PStr ''vpc-1'',
                             in_user_facing = False, in_value = None\<rparr>],
           outputs = None\<rparr> \<and>
   process_module example_deps (shared_entry None) False init_state =
     (Inr False,
      \<lparr>self_output = [],
       files = [(''./tf/stack_network.tf.json'',
                 module_json ''shared''
                   [(''source'', PStr ''../modules/applications/network/shared/tf_module''),
                    (''vpc_id'', PStr ''vpc-1'')])]\<rparr>) \<and>
   PStr ''vpc-1'' \<noteq> PStr (''${ '' @ ''module.vpc.vpc_id'' @ '' }'')"
  by (simp add: example_defs run_defs)

text \<open>
  Claim C2, amended. When a stack entry is processed without an exception, every input of
  its configuration that is not user facing, and that no later input that is not user
  facing shares its name with, is in the module block written for the entry, under its
  name: with the expression \<open>${ <value> }\<close> built from its field \<open>value\<close> when its default
  is the string \<open>"None"\<close>, which is never the string \<open>"None"\<close> itself, and with its default
  otherwise.
\<close>

theorem internal_input_resolved:
  assumes "process_module D ((stack_type, body) # others) flag st = (Inr flag', st')"
      and "entry_name body = Some nm"
      and "read_config_file D stack_type nm = Some c"
      and "inputs c = Some (earlier @ i # later)"
      and "\<not> in_user_facing i"
      and "\<forall>j\<in>set later. \<not> in_user_facing j \<longrightarrow> in_name j \<noteq> in_name i"
  shows "\<exists>block a. last (files st') = (stack_file D stack_type, module_json nm block) \<and>
           map_of block (in_name i) = Some a \<and> a \<noteq> PStr ''None'' \<and>
           (if in_default i = PStr ''None''
            then \<exists>r. in_value i = Some r \<and> a = PStr (''${ '' @ r @ '' }'')
            else a = in_default i)"
proof -
  define ins where "ins = earlier @ i # later"
  have ins: "inputs c = Some ins" and mem: "i \<in> set ins"
    using assms(4) by (simp_all add: ins_def)
  from assms(1-3) ins obtain block1 block2 params where
    lst: "last (files st') = (stack_file D stack_type, module_json nm block2)" and
    il: "inputs_loop ins [] [(''source'', module_source stack_type nm)] = Inr block1" and
    pl: "params_loop (CREATE_VPC_DB_SUBNET D) (Some c)
           (case entry_params body of None \<Rightarrow> [] | Some items \<Rightarrow> items) ([], flag)
           = Inr (params, flag')" and
    blk: "map_of block2 = map_of block1 ++ map_of params"
    by (rule process_module_block)
  define items where "items = (case entry_params body of None \<Rightarrow> [] | Some items \<Rightarrow> items)"
  note pl' = pl [folded items_def]
  have "in_name i \<notin> fst ` set params"
  proof
    assume "in_name i \<in> fst ` set params"
    with params_loop_keys [OF pl' ins] obtain p
      where p: "p \<in> set items" "fst p = in_name i" by auto
    from params_loop_user_facing [OF pl' ins p(1) mem] p(2) assms(5)
    show False by simp
  qed
  then have "map_of params (in_name i) = None" by (simp add: map_of_eq_None_iff)
  with blk have b2: "map_of block2 (in_name i) = map_of block1 (in_name i)"
    by (simp add: map_add_def)
  from inputs_loop_values [OF il mem assms(5)] obtain a where a: "input_value i = Inr a"
    by blast
  from inputs_loop_lookup [OF il, of "in_name i"]
       find_last_internal [OF assms(5,6), of earlier] a
  have "map_of block1 (in_name i) = Some a" by (simp add: ins_def)
  with b2 have m2: "map_of block2 (in_name i) = Some a" by simp
  from a have na: "a \<noteq> PStr ''None''"
    by (auto simp: input_value_def split: if_splits option.splits)
  from a have cond: "if in_default i = PStr ''None''
            then \<exists>r. in_value i = Some r \<and> a = PStr (''${ '' @ r @ '' }'')
            else a = in_default i"
    by (auto simp: input_value_def split: if_splits option.splits)
  show ?thesis
    by (rule exI [of _ block2], rule exI [of _ a]) (intro conjI lst m2 na cond)
qed

theorem internal_input_resolved_witness:
  "\<exists>block. last (files (snd (process_module example_deps
                               (pg_entry (Some [(''storage_gb'', PInt 50)])) False init_state))) =
             (''./tf/stack_database.tf.json'', module_json ''pg'' block) \<and>
           map_of block ''vpc_id'' = Some (PStr ''${ module.vpc.vpc_id }'')"
proof -
  let ?body = "\<lparr>entry_name = Some ''pg'', entry_params = Some [(''storage_gb'', PInt 50)]\<rparr>"
  let ?i = "\<lparr>in_name = ''vpc_id'', in_default = PStr ''None'', in_user_facing = False,
             in_value = Some ''module.vpc.vpc_id''\<rparr>"
  obtain r st where run: "process_module example_deps [(''database'', ?body)] False init_state = (r, st)"
    by (cases "process_module example_deps [(''database'', ?body)] False init_state")
  then have r: "r = Inr False" by (simp add: example_defs run_defs)
  have "\<exists>block a. last (files st) = (stack_file example_deps ''database'', module_json ''pg'' block) \<and>
           map_of block (in_name ?i) = Some a \<and> a \<noteq> PStr ''None'' \<and>
           (if in_default ?i = PStr ''None''
            then \<exists>r. in_value ?i = Some r \<and> a = PStr (''${ '' @ r @ '' }'')
            else a = in_default ?i)"
    by (rule internal_input_resolved [OF run [unfolded r], where c = database_config
          and earlier = "[]" and later = "tl database_inputs"])
       (simp_all add: example_defs)
  then show ?thesis
    unfolding pg_entry_def run snd_conv
    by (auto simp: stack_file_def example_deps_def)
qed

section \<open>Parameters that name an input that is not user facing\<close>

text \<open>
  Claim C3. When a parameter of a stack entry names an input of the entry's configuration
  that is not user facing, processing the entry raises an exception and writes no file for
  the entry. The exception is the \<open>KeyError\<close> of line 119, whose message says that a
  parameter is not user facing: the first parameter of the entry that names such an input.
  For the message, every input that is not user facing and whose default is the string
  \<open>"None"\<close> has a field \<open>value\<close>, so that line 85 does not raise before the parameters are
  read.
\<close>

theorem internal_param_rejected:
  assumes "entry_name body = Some nm"
      and "read_config_file D stack_type nm = Some c"
      and "inputs c = Some ins"
      and "entry_params body = Some items"
      and "(key, v) \<in> set items"
      and "i \<in> set ins" and "in_name i = key" and "\<not> in_user_facing i"
  shows "(\<exists>e st'. process_module D ((stack_type, body) # others) flag st = (Inl e, st') \<and>
                   files st' = files st) \<and>
         ((\<forall>j\<in>set ins. \<not> in_user_facing j \<longrightarrow> in_default j = PStr ''None'' \<longrightarrow>
                       in_value j \<noteq> None) \<longrightarrow>
          (\<exists>k st'. process_module D ((stack_type, body) # others) flag st =
                      (Inl (KeyError (k @ '' is not a user facing parameter'')), st') \<and>
                    k \<in> fst ` set items \<and>
                    (\<exists>j\<in>set ins. in_name j = k \<and> \<not> in_user_facing j)))"
proof -
  let ?run = "process_module D ((stack_type, body) # others) flag st"
  let ?block0 = "[(''source'', module_source stack_type nm)]"
  from assms(5-8) have "\<exists>p\<in>set items. \<exists>j\<in>set ins. in_name j = fst p \<and> \<not> in_user_facing j"
    by force
  from params_loop_error [OF assms(3) this, of "CREATE_VPC_DB_SUBNET D" "([], flag)"]
  obtain k where k: "k \<in> fst ` set items" "\<exists>j\<in>set ins. in_name j = k \<and> \<not> in_user_facing j"
    "params_loop (CREATE_VPC_DB_SUBNET D) (Some c) items ([], flag) =
       Inl (KeyError (k @ '' is not a user facing parameter''))"
    by blast
  have files: "files (read_outputs (Some c) nm st) = files st"
    by (simp add: read_outputs_def split: option.splits)
  have params: "?run = (Inl (KeyError (k @ '' is not a user facing parameter'')),
                        read_outputs (Some c) nm st)"
    if "inputs_loop ins [] ?block0 = Inr block1" for block1
    using that assms(1-4) k(3)
    by (simp add: process_module_def read_inputs_def read_params_def)
  have "\<exists>e st'. ?run = (Inl e, st') \<and> files st' = files st"
  proof (cases "inputs_loop ins [] ?block0")
    case (Inl e)
    with assms(1-3) have "?run = (Inl e, st)"
      by (simp add: process_module_def read_inputs_def)
    then show ?thesis by blast
  next
    case (Inr block1)
    from params [OF Inr] files show ?thesis by blast
  qed
  moreover have "\<exists>k st'. ?run = (Inl (KeyError (k @ '' is not a user facing parameter'')), st') \<and>
                    k \<in> fst ` set items \<and>
                    (\<exists>j\<in>set ins. in_name j = k \<and> \<not> in_user_facing j)"
    if wf: "\<forall>j\<in>set ins. \<not> in_user_facing j \<longrightarrow> in_default j = PStr ''None'' \<longrightarrow>
                       in_value j \<noteq> None"
  proof -
    from wf have "\<forall>j\<in>set ins. \<not> in_user_facing j \<longrightarrow> (\<exists>a. input_value j = Inr a)"
      by (auto simp: input_value_def split: option.splits)
    from inputs_loop_total [OF this] obtain block1
      where "inputs_loop ins [] ?block0 = Inr block1" by blast
    from params [OF this] k(1,2) show ?thesis by blast
  qed
  ultimately show ?thesis by blast
qed

theorem internal_param_rejected_witness:
  "process_module example_deps
     (pg_entry (Some [(''storage_gb'', PInt 50), (''engine'', PStr ''mysql'')])) False init_state =
     (Inl (KeyError ''engine is not a user facing parameter''),
      \<lparr>self_output = [output_ref ''pg'' \<lparr>out_name = ''endpoint'', out_export = True\<rparr>],
       files = []\<rparr>)"
proof -
  let ?items = "[(''storage_gb'', PInt 50), (''engine'', PStr ''mysql'')]"
  let ?body = "\<lparr>entry_name = Some ''pg'', entry_params = Some ?items\<rparr>"
  let ?i = "\<lparr>in_name = ''engine'', in_default = PStr ''postgres'', in_user_facing = False,
             in_value = None\<rparr>"
  have wf: "\<forall>j\<in>set database_inputs. \<not> in_user_facing j \<longrightarrow> in_default j = PStr ''None'' \<longrightarrow>
              in_value j \<noteq> None"
    by (simp add: database_inputs_def)
  have "(\<exists>e st'. process_module example_deps ((''database'', ?body) # []) False init_state =
                    (Inl e, st') \<and> files st' = files init_state) \<and>
        ((\<forall>j\<in>set database_inputs. \<not> in_user_facing j \<longrightarrow> in_default j = PStr ''None'' \<longrightarrow>
              in_value j \<noteq> None) \<longrightarrow>
         (\<exists>k st'. process_module example_deps ((''database'', ?body) # []) False init_state =
                    (Inl (KeyError (k @ '' is not a user facing parameter'')), st') \<and>
                  k \<in> fst ` set ?items \<and>
                  (\<exists>j\<in>set database_inputs. in_name j = k \<and> \<not> in_user_facing j)))"
    by (rule internal_param_rejected [where nm = "''pg''" and c = database_config
          and key = "''engine''" and v = "PStr ''mysql''" and i = ?i])
       (simp_all add: example_defs)
  with wf obtain k st' where
    "process_module example_deps [(''database'', ?body)] False init_state =
       (Inl (KeyError (k @ '' is not a user facing parameter'')), st')"
    by blast
  then show ?thesis
    by (simp add: example_defs run_defs)
qed

section \<open>Parameters that name no input\<close>

text \<open>
  Where the configuration of the entry has inputs, a parameter whose key is the name of
  none of them raises nothing and is dropped. The loop of line 106 over the inputs ends
  for it without an exception and leaves the accepted parameters and the flag as they
  were; processing the entry gives what it gives without the parameter; it ends without an
  exception when no parameter names an input that is not user facing and every input that
  is not user facing and whose default is the string \<open>"None"\<close> has a field \<open>value\<close>; and
  the module block then written
  for the entry does not hold the key, unless the key is \<open>"source"\<close>, which every block
  holds for the path of the module.
\<close>

lemma unmatched_param_dropped:
  assumes "entry_name body = Some nm"
      and "read_config_file D stack_type nm = Some c"
      and "inputs c = Some ins"
      and "entry_params body = Some items"
      and "(key, v) \<in> set items"
      and "key \<notin> in_name ` set ins"
  shows "match_inputs (CREATE_VPC_DB_SUBNET D) key v ins acc = Inr acc \<and>
         process_module D ((stack_type, body) # others) flag st =
           process_module D
             ((stack_type, body\<lparr>entry_params := Some (filter (\<lambda>p. fst p \<noteq> key) items)\<rparr>) # others)
             flag st \<and>
         ((\<forall>j\<in>set ins. \<not> in_user_facing j \<longrightarrow> in_default j = PStr ''None'' \<longrightarrow>
                       in_value j \<noteq> None) \<and>
          (\<forall>p\<in>set items. \<forall>j\<in>set ins. in_name j = fst p \<longrightarrow> in_user_facing j) \<longrightarrow>
          (\<exists>flag' st'. process_module D ((stack_type, body) # others) flag st = (Inr flag', st'))) \<and>
         (\<forall>flag' st'. process_module D ((stack_type, body) # others) flag st = (Inr flag', st') \<longrightarrow>
            (\<exists>block. last (files st') = (stack_file D stack_type, module_json nm block) \<and>
                     (key \<in> fst ` set block \<longrightarrow> key = ''source'')))"
proof (intro conjI allI impI)
  show "match_inputs (CREATE_VPC_DB_SUBNET D) key v ins acc = Inr acc"
    using assms(6) by (rule match_inputs_unmatched)
next
  show "process_module D ((stack_type, body) # others) flag st =
          process_module D
            ((stack_type, body\<lparr>entry_params := Some (filter (\<lambda>p. fst p \<noteq> key) items)\<rparr>) # others)
            flag st"
  proof -
    have "read_params C (Some c)
            (body\<lparr>entry_params := Some (filter (\<lambda>p. fst p \<noteq> key) items)\<rparr>) b f =
          read_params C (Some c) body b f" for C b f
      using assms(4) params_loop_filter [OF assms(3,6)] by (simp add: read_params_def)
    with assms(1,2) show ?thesis
      by (simp add: process_module_def Let_def cong: sum.case_cong)
  qed
next
  assume wf: "(\<forall>j\<in>set ins. \<not> in_user_facing j \<longrightarrow> in_default j = PStr ''None'' \<longrightarrow>
                       in_value j \<noteq> None) \<and>
          (\<forall>p\<in>set items. \<forall>j\<in>set ins. in_name j = fst p \<longrightarrow> in_user_facing j)"
  then have "\<forall>j\<in>set ins. \<not> in_user_facing j \<longrightarrow> (\<exists>a. input_value j = Inr a)"
    by (auto simp: input_value_def split: option.splits)
  from inputs_loop_total [OF this] obtain block1
    where il: "inputs_loop ins [] [(''source'', module_source stack_type nm)] = Inr block1"
    by blast
  from wf have "\<forall>p\<in>set items. \<forall>j\<in>set ins. in_name j = fst p \<longrightarrow> in_user_facing j" by simp
  from params_loop_total [OF assms(3) this, of "CREATE_VPC_DB_SUBNET D" "([], flag)"]
  obtain ps flag1
    where "params_loop (CREATE_VPC_DB_SUBNET D) (Some c) items ([], flag) = Inr (ps, flag1)"
    by force
  with assms(1-4) il
  show "\<exists>flag' st'. process_module D ((stack_type, body) # others) flag st = (Inr flag', st')"
    by (simp add: process_module_def read_inputs_def read_params_def Let_def)
next
  fix flag' st'
  assume run: "process_module D ((stack_type, body) # others) flag st = (Inr flag', st')"
  from run assms(1-3) obtain block1 block2 params where
    lst: "last (files st') = (stack_file D stack_type, module_json nm block2)" and
    il: "inputs_loop ins [] [(''source'', module_source stack_type nm)] = Inr block1" and
    pl: "params_loop (CREATE_VPC_DB_SUBNET D) (Some c)
           (case entry_params body of None \<Rightarrow> [] | Some items \<Rightarrow> items) ([], flag)
           = Inr (params, flag')" and
    blk: "map_of block2 = map_of block1 ++ map_of params"
    by (rule process_module_block)
  have "key \<in> fst ` set block2 \<longrightarrow> key = ''source''"
  proof
    assume "key \<in> fst ` set block2"
    then have some: "map_of block2 key \<noteq> None" by (simp add: map_of_eq_None_iff)
    from params_loop_keys [OF pl assms(3)] assms(6) have "key \<notin> fst ` set params" by auto
    then have "map_of params key = None" by (simp add: map_of_eq_None_iff)
    with blk some have "map_of block1 key \<noteq> None" by (simp add: map_add_def)
    with inputs_loop_keys [OF il assms(6)] show "key = ''source''"
      by (simp split: if_splits)
  qed
  with lst
  show "\<exists>block. last (files st') = (stack_file D stack_type, module_json nm block) \<and>
                 (key \<in> fst ` set block \<longrightarrow> key = ''source'')"
    by blast
qed

lemma unmatched_param_dropped_example:
  "process_module example_deps
     (pg_entry (Some [(''colour'', PStr ''red''), (''storage_gb'', PInt 50)])) False init_state =
   process_module example_deps (pg_entry (Some [(''storage_gb'', PInt 50)])) False init_state \<and>
   process_module example_deps
     (pg_entry (Some [(''colour'', PStr ''red''), (''storage_gb'', PInt 50)])) False init_state =
     (Inr False,
      \<lparr>self_output = [output_ref ''pg'' \<lparr>out_name = ''endpoint'', out_export = True\<rparr>],
       files = [(stack_file example_deps ''database'',
                 module_json ''pg'' (pg_block @ [(''storage_gb'', PInt 50)]))]\<rparr>)"
proof -
  let ?items = "[(''colour'', PStr ''red''), (''storage_gb'', PInt 50)]"
  let ?body = "\<lparr>entry_name = Some ''pg'', entry_params = Some ?items\<rparr>"
  have "process_module example_deps ((''database'', ?body) # []) False init_state =
          process_module example_deps
            ((''database'',
              ?body\<lparr>entry_params := Some (filter (\<lambda>p. fst p \<noteq> ''colour'') ?items)\<rparr>) # [])
            False init_state"
    using unmatched_param_dropped [where body = ?body and nm = "''pg''" and D = example_deps
        and stack_type = "''database''" and c = database_config and ins = database_inputs
        and items = ?items and key = "''colour''" and v = "PStr ''red''" and others = "[]"
        and flag = False and st = init_state]
    by (simp add: example_defs)
  then show ?thesis
    by (simp add: example_defs run_defs)
qed


text \<open>
  Claim C5. The configuration of \<open>storage/bucket\<close> has outputs and no key \<open>"inputs"\<close>, which
  line 75 allows. The parameter \<open>colour\<close> of the entry
  \<open>{"storage": {"name": "bucket", "params": {"colour": "red"}}}\<close> is the name of no input,
  and it is not dropped: line 106 reads \<open>application_config["inputs"]\<close> and raises
  \<open>KeyError('inputs')\<close>, and nothing is written. The same entry with an empty \<open>params\<close> is
  processed without an exception.
\<close>

theorem unmatched_param_without_inputs:
  "generate example_deps
     (example_self (EnumMember GCP) [bucket_entry (Some [(''colour'', PStr ''red'')])])
     init_state =
     (Inl (KeyError ''inputs''),
      \<lparr>self_output = [output_ref ''bucket'' \<lparr>out_name = ''arn'', out_export = True\<rparr>],
       files = []\<rparr>) \<and>
   process_stack_modules example_deps
     (example_self (EnumMember GCP) [bucket_entry (Some [])]) init_state =
     (Inr (),
      \<lparr>self_output = [output_ref ''bucket'' \<lparr>out_name = ''arn'', out_export = True\<rparr>],
       files = [(''./tf/stack_storage.tf.json'',
                 module_json ''bucket''
                   [(''source'', PStr ''../modules/applications/storage/bucket/tf_module'')])]\<rparr>)"
  by (simp add: example_defs run_defs)

end
